theory Spec2Isabelle
  imports Complex_Main
begin

section \<open>Value-based agents of the offline reinforcement learning harness\<close>

text \<open>
  The development embeds the agents of \<^verbatim>\<open>src/agents.py\<close> (Atari) and
  \<^verbatim>\<open>src/lunar/agents.py\<close> (LunarLander). The neural networks are opaque: a network
  is the value of its parameters (type \<open>'p\<close>), and its forward pass is a function
  \<open>fwd :: 'p \<Rightarrow> 's \<Rightarrow> real list\<close> handed to every operation that calls the network.
  Tensor entries are real numbers, a one-dimensional tensor is a list, and every raise
  of Python or torch is a value \<open>Inl e\<close> of the result type.
\<close>

subsection \<open>Errors and results\<close>

datatype error = RuntimeError | ValueError | ZeroDivisionError | AttributeError

text \<open>\<open>rmap f xs\<close> applies a fallible operation to every row and stops at the first raise.\<close>

fun rmap :: "('a \<Rightarrow> error + 'b) \<Rightarrow> 'a list \<Rightarrow> error + 'b list" where
  "rmap f [] = Inr []"
| "rmap f (x # xs) =
     (case f x of
        Inl e \<Rightarrow> Inl e
      | Inr y \<Rightarrow> (case rmap f xs of Inl e \<Rightarrow> Inl e | Inr ys \<Rightarrow> Inr (y # ys)))"

subsection \<open>Tensor primitives\<close>

text \<open>
  \<^verbatim>\<open>torch.max(x, dim)\<close> and \<^verbatim>\<open>torch.argmax(x, dim)\<close> on one row. Both raise on a
  row without entries; \<^verbatim>\<open>argmax\<close> returns the index of the first maximal entry.
\<close>

fun first_index :: "real \<Rightarrow> real list \<Rightarrow> nat" where
  "first_index v [] = 0"
| "first_index v (x # xs) = (if x = v then 0 else Suc (first_index v xs))"

definition argmax_list :: "real list \<Rightarrow> nat" where
  "argmax_list q = first_index (Max (set q)) q"

definition torch_max :: "real list \<Rightarrow> error + real" where
  "torch_max q = (if q = [] then Inl RuntimeError else Inr (Max (set q)))"

definition torch_argmax :: "real list \<Rightarrow> error + nat" where
  "torch_argmax q = (if q = [] then Inl RuntimeError else Inr (argmax_list q))"

text \<open>\<^verbatim>\<open>x.gather(1, index)\<close> on one row: the entry at \<open>index\<close>, a raise when out of range.\<close>

definition gather :: "'a list \<Rightarrow> nat \<Rightarrow> error + 'a" where
  "gather q a = (if a < length q then Inr (q ! a) else Inl RuntimeError)"

text \<open>\<^verbatim>\<open>x[mask] = 0\<close> for a boolean mask with one flag per row.\<close>

definition mask_zero :: "real list \<Rightarrow> bool list \<Rightarrow> real list" where
  "mask_zero x flags = map2 (\<lambda>v d. if d then 0 else v) x flags"

text \<open>\<^verbatim>\<open>x.mean()\<close> of a one-dimensional tensor.\<close>

definition mean :: "real list \<Rightarrow> real" where
  "mean x = sum_list x / real (length x)"

text \<open>\<^verbatim>\<open>SmoothL1Loss\<close> with its default \<open>beta = 1\<close>: elementwise, and with mean reduction.\<close>

definition smooth_l1 :: "real \<Rightarrow> real \<Rightarrow> real" where
  "smooth_l1 x y = (if \<bar>x - y\<bar> < 1 then 0.5 * (x - y)\<^sup>2 else \<bar>x - y\<bar> - 0.5)"

definition SmoothL1Loss :: "real list \<Rightarrow> real list \<Rightarrow> real" where
  "SmoothL1Loss x y = mean (map2 smooth_l1 x y)"

subsection \<open>Transitions and batches\<close>

text \<open>
  A sampled batch is the five parallel sequences \<^verbatim>\<open>state, action, reward, done,
  new_state\<close>, one entry per transition; it is kept as the list of its transitions, from
  which the five columns are read with \<open>map\<close>.
\<close>

record 's transition =
  t_state :: 's
  t_action :: nat
  t_reward :: real
  t_done :: bool
  t_new_state :: 's

subsection \<open>Networks\<close>

text \<open>
  \<^verbatim>\<open>net.state_dict()\<close> reads all parameters of a network and
  \<^verbatim>\<open>net.load_state_dict(sd)\<close> overwrites all of them.
\<close>

definition state_dict :: "'p \<Rightarrow> 'p" where
  "state_dict net = net"

definition load_state_dict :: "'p \<Rightarrow> 'p \<Rightarrow> 'p" where
  "load_state_dict net sd = sd"

subsection \<open>Agents\<close>

text \<open>
  The summary writer is \<open>None\<close> until \<^verbatim>\<open>add_summary_writer\<close> attaches one; an attached
  writer is the list of the scalars it has received. The records follow the classes:
  the base class \<^verbatim>\<open>Agent\<close>, the agents with a policy and a target network, and the
  fields their variants add.
\<close>

type_synonym summary = "(string \<times> real) list"

record agent =
  action_space :: nat
  summary_writer :: "summary option"

record ('p, 'o) dqn_agent = agent +
  summary_checkpoint :: int
  target_update_steps :: int
  policy :: 'p
  target :: 'p
  optimizer :: 'o

record ('p, 'o) atari_agent = "('p, 'o) dqn_agent" +
  steps_done :: int
  eps_start :: real
  eps_end :: real
  eps_decay :: real

record ('p, 'o) lunar_agent = "('p, 'o) atari_agent" +
  eps_threshold :: real

record ('p, 'o) offline_agent = "('p, 'o) dqn_agent" +
  batches_done :: int
  gamma :: real

record ('p, 'o) ensemble_agent = "('p, 'o) offline_agent" +
  num_heads :: nat

record ('p, 'o) qr_agent = "('p, 'o) offline_agent" +
  num_quantiles :: nat
  tau :: "real list"

text \<open>The configuration dictionary \<^verbatim>\<open>cfg\<close> read by the offline agents.\<close>

record config =
  SUMMARY_CHECKPOINT :: int
  TARGET_UPDATE_INTERVAL :: int
  GAMMA :: real
  LEARNING_RATE :: real
  NUM_HEADS :: nat

definition add_summary_writer :: "summary \<Rightarrow> 'z agent_scheme \<Rightarrow> 'z agent_scheme" where
  "add_summary_writer w ag = ag\<lparr>summary_writer := Some w\<rparr>"

subsection \<open>Constructors\<close>

text \<open>
  In every constructor the two network constructions (\<^verbatim>\<open>DQNCNN(...)\<close>,
  \<^verbatim>\<open>DQNDense(...)\<close>, ...) return two freshly initialised networks \<open>policy_net\<close> and
  \<open>target_net\<close>, and \<^verbatim>\<open>Adam(...)\<close> returns the optimizer state \<open>adam\<close>.

  \<^verbatim>\<open>DQNAgent.__init__\<close> of \<^verbatim>\<open>src/agents.py\<close>: line 67 loads the state of
  \<^verbatim>\<open>self.target\<close> into \<^verbatim>\<open>self.target\<close>.
\<close>

definition atari_DQNAgent_init :: "nat \<Rightarrow> 'p \<Rightarrow> 'p \<Rightarrow> 'o \<Rightarrow> ('p, 'o) atari_agent" where
  "atari_DQNAgent_init n_actions policy_net target_net adam =
     \<lparr>action_space = n_actions, summary_writer = None,
      summary_checkpoint = 100, target_update_steps = 2000,
      policy = policy_net,
      target = load_state_dict target_net (state_dict target_net),
      optimizer = adam,
      steps_done = 0, eps_start = 0.99, eps_end = 0.05, eps_decay = 5000\<rparr>"

text \<open>\<^verbatim>\<open>DoubleDQNAgent.__init__\<close>: line 161 loads the state of \<^verbatim>\<open>self.policy\<close>.\<close>

definition atari_DoubleDQNAgent_init :: "nat \<Rightarrow> 'p \<Rightarrow> 'p \<Rightarrow> 'o \<Rightarrow> ('p, 'o) atari_agent" where
  "atari_DoubleDQNAgent_init n_actions policy_net target_net adam =
     \<lparr>action_space = n_actions, summary_writer = None,
      summary_checkpoint = 100, target_update_steps = 2000,
      policy = policy_net,
      target = load_state_dict target_net (state_dict policy_net),
      optimizer = adam,
      steps_done = 0, eps_start = 0.99, eps_end = 0.05, eps_decay = 5000\<rparr>"

text \<open>\<^verbatim>\<open>DQNAgent.__init__\<close> of \<^verbatim>\<open>src/lunar/agents.py\<close>.\<close>

definition lunar_DQNAgent_init :: "nat \<Rightarrow> 'p \<Rightarrow> 'p \<Rightarrow> 'o \<Rightarrow> ('p, 'o) lunar_agent" where
  "lunar_DQNAgent_init n_actions policy_net target_net adam =
     \<lparr>action_space = n_actions, summary_writer = None,
      summary_checkpoint = 100, target_update_steps = 2500,
      policy = policy_net,
      target = load_state_dict target_net (state_dict policy_net),
      optimizer = adam,
      steps_done = 0, eps_start = 0.99, eps_end = 0.05,
      eps_decay = (0.99 - 0.05) / 100000,
      eps_threshold = 0.99\<rparr>"

text \<open>\<^verbatim>\<open>OfflineDQNAgent.__init__\<close>.\<close>

definition OfflineDQNAgent_init ::
  "nat \<Rightarrow> config \<Rightarrow> 'p \<Rightarrow> 'p \<Rightarrow> 'o \<Rightarrow> ('p, 'o) offline_agent" where
  "OfflineDQNAgent_init n_actions cfg policy_net target_net adam =
     \<lparr>action_space = n_actions, summary_writer = None,
      summary_checkpoint = SUMMARY_CHECKPOINT cfg,
      target_update_steps = TARGET_UPDATE_INTERVAL cfg,
      policy = policy_net,
      target = load_state_dict target_net (state_dict policy_net),
      optimizer = adam,
      batches_done = 0, gamma = GAMMA cfg\<rparr>"

text \<open>\<^verbatim>\<open>EnsembleOffDQNAgent.__init__\<close>, inherited by \<^verbatim>\<open>REMOffDQNAgent\<close>.\<close>

definition EnsembleOffDQNAgent_init ::
  "nat \<Rightarrow> config \<Rightarrow> 'p \<Rightarrow> 'p \<Rightarrow> 'o \<Rightarrow> ('p, 'o) ensemble_agent" where
  "EnsembleOffDQNAgent_init n_actions cfg policy_net target_net adam =
     \<lparr>action_space = n_actions, summary_writer = None,
      summary_checkpoint = SUMMARY_CHECKPOINT cfg,
      target_update_steps = TARGET_UPDATE_INTERVAL cfg,
      policy = policy_net,
      target = load_state_dict target_net (state_dict policy_net),
      optimizer = adam,
      batches_done = 0, gamma = GAMMA cfg,
      num_heads = NUM_HEADS cfg\<rparr>"

text \<open>
  \<^verbatim>\<open>QROffDQNAgent.__init__\<close>; line 437 is
  \<^verbatim>\<open>tau = (torch.arange(num_quantiles) + 1) / (1.0 * num_quantiles)\<close>.
\<close>

definition QR_tau :: "nat \<Rightarrow> real list" where
  "QR_tau n = map (\<lambda>i. (real i + 1) / (1.0 * real n)) [0..<n]"

definition QROffDQNAgent_init ::
  "nat \<Rightarrow> config \<Rightarrow> 'p \<Rightarrow> 'p \<Rightarrow> 'o \<Rightarrow> ('p, 'o) qr_agent" where
  "QROffDQNAgent_init n_actions cfg policy_net target_net adam =
     \<lparr>action_space = n_actions, summary_writer = None,
      summary_checkpoint = SUMMARY_CHECKPOINT cfg,
      target_update_steps = TARGET_UPDATE_INTERVAL cfg,
      policy = policy_net,
      target = load_state_dict target_net (state_dict policy_net),
      optimizer = adam,
      batches_done = 0, gamma = GAMMA cfg,
      num_quantiles = 5, tau = QR_tau 5\<rparr>"

subsection \<open>Acting\<close>

text \<open>
  The random draws of \<^verbatim>\<open>act\<close> are inputs: \<open>u\<close> is the value of \<^verbatim>\<open>torch.rand(1)\<close>
  and \<open>r\<close> the value \<^verbatim>\<open>random.randint(0, action_space - 1)\<close> returns, which raises
  when the range is empty. \<^verbatim>\<open>act\<close> returns its result together with the agent, which
  it has changed also when the result is a raise.
\<close>

definition randint :: "nat \<Rightarrow> nat \<Rightarrow> error + nat" where
  "randint n r = (if n = 0 then Inl ValueError else Inr r)"

text \<open>
  \<^verbatim>\<open>DQNAgent.act\<close> and \<^verbatim>\<open>DoubleDQNAgent.act\<close> of \<^verbatim>\<open>src/agents.py\<close> (the same
  code): the threshold is computed from \<^verbatim>\<open>steps_done\<close>, then the counter advances.
\<close>

definition atari_eps_threshold :: "('p, 'o, 'z) atari_agent_scheme \<Rightarrow> real" where
  "atari_eps_threshold ag =
     eps_end ag + (eps_start ag - eps_end ag) * exp (-1 * real_of_int (steps_done ag) / eps_decay ag)"

definition atari_act ::
  "('p \<Rightarrow> 's \<Rightarrow> real list) \<Rightarrow> real \<Rightarrow> nat \<Rightarrow> 's \<Rightarrow> ('p, 'o, 'z) atari_agent_scheme
    \<Rightarrow> (error + nat) \<times> ('p, 'o, 'z) atari_agent_scheme" where
  "atari_act fwd u r s ag =
     (let eps = atari_eps_threshold ag;
          ag = ag\<lparr>steps_done := steps_done ag + 1\<rparr>
      in if u > eps then (torch_argmax (fwd (policy ag) s), ag)
         else (randint (action_space ag) r, ag))"

text \<open>
  \<^verbatim>\<open>DQNAgent.act\<close> of \<^verbatim>\<open>src/lunar/agents.py\<close>: the stored threshold is decremented
  while it is above \<^verbatim>\<open>eps_end\<close>, then used.
\<close>

definition lunar_decay :: "('p, 'o, 'z) lunar_agent_scheme \<Rightarrow> ('p, 'o, 'z) lunar_agent_scheme" where
  "lunar_decay ag =
     (if eps_threshold ag > eps_end ag
      then ag\<lparr>eps_threshold := eps_threshold ag - eps_decay ag\<rparr> else ag)"

definition lunar_act ::
  "('p \<Rightarrow> 's \<Rightarrow> real list) \<Rightarrow> real \<Rightarrow> nat \<Rightarrow> 's \<Rightarrow> ('p, 'o, 'z) lunar_agent_scheme
    \<Rightarrow> (error + nat) \<times> ('p, 'o, 'z) lunar_agent_scheme" where
  "lunar_act fwd u r s ag =
     (let ag = lunar_decay ag
      in if u > eps_threshold ag then (torch_argmax (fwd (policy ag) s), ag)
         else (randint (action_space ag) r, ag))"



text \<open>\<^verbatim>\<open>OfflineDQNAgent.act\<close>: greedy, and without effect on the agent.\<close>

definition OfflineDQNAgent_act ::
  "('p \<Rightarrow> 's \<Rightarrow> real list) \<Rightarrow> 's \<Rightarrow> ('p, 'o, 'z) offline_agent_scheme \<Rightarrow> error + nat" where
  "OfflineDQNAgent_act fwd s ag = torch_argmax (fwd (policy ag) s)"

subsection \<open>Regression targets\<close>

text \<open>
  \<^verbatim>\<open>self.policy(state).gather(1, action)\<close>: the value of the action taken, per
  transition.
\<close>

definition state_action_values :: "('s \<Rightarrow> real list) \<Rightarrow> 's transition list \<Rightarrow> error + real list" where
  "state_action_values policy_fwd batch =
     rmap (\<lambda>t. gather (policy_fwd (t_state t)) (t_action t)) batch"

text \<open>
  \<^verbatim>\<open>DQNAgent.learn\<close> of \<^verbatim>\<open>src/agents.py\<close>, lines 116 to 121, with
  \<open>target_fwd\<close> the forward pass of \<^verbatim>\<open>self.target\<close>.
\<close>

definition atari_DQNAgent_expected ::
  "('s \<Rightarrow> real list) \<Rightarrow> 's transition list \<Rightarrow> error + real list" where
  "atari_DQNAgent_expected target_fwd batch =
     (let reward = map t_reward batch;
          is_done = map t_done batch;
          new_state = map t_new_state batch
      in case rmap torch_max (map target_fwd new_state) of
           Inl e \<Rightarrow> Inl e
         | Inr next_state_values \<Rightarrow>
             let next_state_values = mask_zero next_state_values is_done
             in Inr (map2 (\<lambda>v r. v * 0.999 + r) next_state_values reward))"

text \<open>\<^verbatim>\<open>DoubleDQNAgent.learn\<close> of \<^verbatim>\<open>src/agents.py\<close>, lines 210 to 218.\<close>

definition atari_DoubleDQNAgent_expected ::
  "('s \<Rightarrow> real list) \<Rightarrow> ('s \<Rightarrow> real list) \<Rightarrow> 's transition list \<Rightarrow> error + real list" where
  "atari_DoubleDQNAgent_expected policy_fwd target_fwd batch =
     (let reward = map t_reward batch;
          is_done = map t_done batch;
          new_state = map t_new_state batch
      in case rmap torch_argmax (map policy_fwd new_state) of
           Inl e \<Rightarrow> Inl e
         | Inr new_action \<Rightarrow>
             (case rmap (\<lambda>(q, a). gather q a) (zip (map target_fwd new_state) new_action) of
                Inl e \<Rightarrow> Inl e
              | Inr next_state_values \<Rightarrow>
                  let next_state_values = mask_zero next_state_values is_done
                  in Inr (map2 (\<lambda>v r. v * 0.999 + r) next_state_values reward)))"

text \<open>\<^verbatim>\<open>DQNAgent.learn\<close> of \<^verbatim>\<open>src/lunar/agents.py\<close>, lines 153 to 162.\<close>

definition lunar_DQNAgent_expected ::
  "('s \<Rightarrow> real list) \<Rightarrow> ('s \<Rightarrow> real list) \<Rightarrow> 's transition list \<Rightarrow> error + real list" where
  "lunar_DQNAgent_expected policy_fwd target_fwd batch =
     (let reward = map t_reward batch;
          is_done = map t_done batch;
          new_state = map t_new_state batch
      in case rmap torch_argmax (map policy_fwd new_state) of
           Inl e \<Rightarrow> Inl e
         | Inr new_action \<Rightarrow>
             (case rmap (\<lambda>(q, a). gather q a) (zip (map target_fwd new_state) new_action) of
                Inl e \<Rightarrow> Inl e
              | Inr next_state_values \<Rightarrow>
                  let next_state_values = mask_zero next_state_values is_done
                  in Inr (map2 (\<lambda>v r. v * 0.99 + r) next_state_values reward)))"

text \<open>\<^verbatim>\<open>OfflineDQNAgent.learn\<close>, lines 236 to 241, with \<open>g\<close> the value of \<^verbatim>\<open>self.gamma\<close>.\<close>

definition OfflineDQNAgent_expected ::
  "real \<Rightarrow> ('s \<Rightarrow> real list) \<Rightarrow> 's transition list \<Rightarrow> error + real list" where
  "OfflineDQNAgent_expected g target_fwd batch =
     (let reward = map t_reward batch;
          is_done = map t_done batch;
          new_state = map t_new_state batch
      in case rmap torch_max (map target_fwd new_state) of
           Inl e \<Rightarrow> Inl e
         | Inr next_state_values \<Rightarrow>
             let next_state_values = mask_zero next_state_values is_done
             in Inr (map2 (\<lambda>v r. v * g + r) next_state_values reward))"

text \<open>
  The target as the specification words it: the reward plus \<open>gamma\<close> times the largest
  output of the target network on the next state when the transition is not terminal,
  and the reward alone when it is.
\<close>

definition spec_dqn_target :: "real \<Rightarrow> ('s \<Rightarrow> real list) \<Rightarrow> 's transition \<Rightarrow> real" where
  "spec_dqn_target g target_fwd t =
     (if t_done t then t_reward t else t_reward t + g * Max (set (target_fwd (t_new_state t))))"

text \<open>
  The Double-DQN target as the specification words it: the action is the \<open>argmax\<close> of
  the policy network on the next state, its value is read from the target network, and
  the product with \<open>1 - done\<close> removes it for a terminal transition.
\<close>

definition spec_double_dqn_target ::
  "real \<Rightarrow> ('s \<Rightarrow> real list) \<Rightarrow> ('s \<Rightarrow> real list) \<Rightarrow> 's transition \<Rightarrow> real" where
  "spec_double_dqn_target g policy_fwd target_fwd t =
     t_reward t
     + g * (target_fwd (t_new_state t) ! argmax_list (policy_fwd (t_new_state t)))
         * (1 - (if t_done t then 1 else 0))"

subsection \<open>The learn step of the agents with a target network\<close>

text \<open>
  Every \<^verbatim>\<open>learn\<close> ends with the same two blocks. The first is
  \<^verbatim>\<open>if counter % self.target_update_steps == 0: self.target.load_state_dict(self.policy.state_dict())\<close>,
  where \<^verbatim>\<open>%\<close> raises for a zero divisor.
\<close>

definition update_target ::
  "int \<Rightarrow> ('p, 'o, 'z) dqn_agent_scheme \<Rightarrow> error + ('p, 'o, 'z) dqn_agent_scheme" where
  "update_target counter ag =
     (if target_update_steps ag = 0 then Inl ZeroDivisionError
      else if counter mod target_update_steps ag = 0
      then Inr (ag\<lparr>target := load_state_dict (target ag) (state_dict (policy ag))\<rparr>)
      else Inr ag)"

text \<open>
  The second is
  \<^verbatim>\<open>if self.summary_writer is not None and counter % self.summary_checkpoint == 0:\<close>
  followed by the two calls of \<^verbatim>\<open>add_scalar\<close>; the remainder is computed only when a
  writer is attached.
\<close>

definition log_metrics ::
  "int \<Rightarrow> real \<Rightarrow> real \<Rightarrow> ('p, 'o, 'z) dqn_agent_scheme \<Rightarrow> error + ('p, 'o, 'z) dqn_agent_scheme" where
  "log_metrics counter loss q ag =
     (case summary_writer ag of
        None \<Rightarrow> Inr ag
      | Some w \<Rightarrow>
          if summary_checkpoint ag = 0 then Inl ZeroDivisionError
          else if counter mod summary_checkpoint ag = 0
          then Inr (ag\<lparr>summary_writer := Some (w @ [(''Loss'', loss), (''Expected Q Values'', q)])\<rparr>)
          else Inr ag)"

text \<open>
  The agents of \<^verbatim>\<open>src/agents.py\<close> and the \<^verbatim>\<open>DQNAgent\<close> of \<^verbatim>\<open>src/lunar/agents.py\<close>
  use \<^verbatim>\<open>self.steps_done\<close> as the counter of both blocks, and \<^verbatim>\<open>learn\<close> does not change
  it.
\<close>

definition finish_online ::
  "real \<Rightarrow> real \<Rightarrow> ('p, 'o, 'z) atari_agent_scheme \<Rightarrow> error + ('p, 'o, 'z) atari_agent_scheme" where
  "finish_online loss q ag =
     (case update_target (steps_done ag) ag of
        Inl e \<Rightarrow> Inl e
      | Inr ag \<Rightarrow> log_metrics (steps_done ag) loss q ag)"

text \<open>
  The offline agents use \<^verbatim>\<open>self.batches_done\<close>, and the last statement of their
  \<^verbatim>\<open>learn\<close> is \<^verbatim>\<open>self.batches_done += 1\<close>.
\<close>

definition finish_offline ::
  "real \<Rightarrow> real \<Rightarrow> ('p, 'o, 'z) offline_agent_scheme \<Rightarrow> error + ('p, 'o, 'z) offline_agent_scheme" where
  "finish_offline loss q ag =
     (case update_target (batches_done ag) ag of
        Inl e \<Rightarrow> Inl e
      | Inr ag \<Rightarrow>
          (case log_metrics (batches_done ag) loss q ag of
             Inl e \<Rightarrow> Inl e
           | Inr ag \<Rightarrow> Inr (ag\<lparr>batches_done := batches_done ag + 1\<rparr>)))"

text \<open>
  The optimisation step (\<^verbatim>\<open>zero_grad\<close>, \<^verbatim>\<open>loss.backward()\<close>, the clamp of the
  gradients and \<^verbatim>\<open>optimizer.step()\<close>) is the opaque function \<open>optimize\<close>: from
  the optimizer state, the policy network, the batch and the targets it returns the new
  optimizer state and the new policy network.

  \<^verbatim>\<open>DQNAgent.learn\<close> of \<^verbatim>\<open>src/agents.py\<close>. \<^verbatim>\<open>torch.stack\<close> raises on an empty
  sample.
\<close>

definition atari_DQNAgent_learn ::
  "('p \<Rightarrow> 's \<Rightarrow> real list) \<Rightarrow> ('o \<Rightarrow> 'p \<Rightarrow> 's transition list \<Rightarrow> real list \<Rightarrow> 'o \<times> 'p)
    \<Rightarrow> 's transition list \<Rightarrow> ('p, 'o, 'z) atari_agent_scheme
    \<Rightarrow> error + ('p, 'o, 'z) atari_agent_scheme" where
  "atari_DQNAgent_learn fwd optimize batch ag =
     (if batch = [] then Inl RuntimeError
      else case state_action_values (fwd (policy ag)) batch of
        Inl e \<Rightarrow> Inl e
      | Inr q_taken \<Rightarrow>
          (case atari_DQNAgent_expected (fwd (target ag)) batch of
             Inl e \<Rightarrow> Inl e
           | Inr expected \<Rightarrow>
               let loss = SmoothL1Loss q_taken expected;
                   (adam, net) = optimize (optimizer ag) (policy ag) batch expected
               in finish_online loss (mean expected) (ag\<lparr>policy := net, optimizer := adam\<rparr>)))"

text \<open>\<^verbatim>\<open>DoubleDQNAgent.learn\<close> of \<^verbatim>\<open>src/agents.py\<close>.\<close>

definition atari_DoubleDQNAgent_learn ::
  "('p \<Rightarrow> 's \<Rightarrow> real list) \<Rightarrow> ('o \<Rightarrow> 'p \<Rightarrow> 's transition list \<Rightarrow> real list \<Rightarrow> 'o \<times> 'p)
    \<Rightarrow> 's transition list \<Rightarrow> ('p, 'o, 'z) atari_agent_scheme
    \<Rightarrow> error + ('p, 'o, 'z) atari_agent_scheme" where
  "atari_DoubleDQNAgent_learn fwd optimize batch ag =
     (if batch = [] then Inl RuntimeError
      else case state_action_values (fwd (policy ag)) batch of
        Inl e \<Rightarrow> Inl e
      | Inr q_taken \<Rightarrow>
          (case atari_DoubleDQNAgent_expected (fwd (policy ag)) (fwd (target ag)) batch of
             Inl e \<Rightarrow> Inl e
           | Inr expected \<Rightarrow>
               let loss = SmoothL1Loss q_taken expected;
                   (adam, net) = optimize (optimizer ag) (policy ag) batch expected
               in finish_online loss (mean expected) (ag\<lparr>policy := net, optimizer := adam\<rparr>)))"

text \<open>\<^verbatim>\<open>DQNAgent.learn\<close> of \<^verbatim>\<open>src/lunar/agents.py\<close>.\<close>

definition lunar_DQNAgent_learn ::
  "('p \<Rightarrow> 's \<Rightarrow> real list) \<Rightarrow> ('o \<Rightarrow> 'p \<Rightarrow> 's transition list \<Rightarrow> real list \<Rightarrow> 'o \<times> 'p)
    \<Rightarrow> 's transition list \<Rightarrow> ('p, 'o, 'z) atari_agent_scheme
    \<Rightarrow> error + ('p, 'o, 'z) atari_agent_scheme" where
  "lunar_DQNAgent_learn fwd optimize batch ag =
     (if batch = [] then Inl RuntimeError
      else case state_action_values (fwd (policy ag)) batch of
        Inl e \<Rightarrow> Inl e
      | Inr q_taken \<Rightarrow>
          (case lunar_DQNAgent_expected (fwd (policy ag)) (fwd (target ag)) batch of
             Inl e \<Rightarrow> Inl e
           | Inr expected \<Rightarrow>
               let loss = SmoothL1Loss q_taken expected;
                   (adam, net) = optimize (optimizer ag) (policy ag) batch expected
               in finish_online loss (mean expected) (ag\<lparr>policy := net, optimizer := adam\<rparr>)))"

text \<open>\<^verbatim>\<open>OfflineDQNAgent.learn\<close>; the batch is handed in by the caller.\<close>

definition OfflineDQNAgent_learn ::
  "('p \<Rightarrow> 's \<Rightarrow> real list) \<Rightarrow> ('o \<Rightarrow> 'p \<Rightarrow> 's transition list \<Rightarrow> real list \<Rightarrow> 'o \<times> 'p)
    \<Rightarrow> 's transition list \<Rightarrow> ('p, 'o, 'z) offline_agent_scheme
    \<Rightarrow> error + ('p, 'o, 'z) offline_agent_scheme" where
  "OfflineDQNAgent_learn fwd optimize batch ag =
     (case state_action_values (fwd (policy ag)) batch of
        Inl e \<Rightarrow> Inl e
      | Inr q_taken \<Rightarrow>
          (case OfflineDQNAgent_expected (gamma ag) (fwd (target ag)) batch of
             Inl e \<Rightarrow> Inl e
           | Inr expected \<Rightarrow>
               let loss = SmoothL1Loss q_taken expected;
                   (adam, net) = optimize (optimizer ag) (policy ag) batch expected
               in finish_offline loss (mean expected) (ag\<lparr>policy := net, optimizer := adam\<rparr>)))"

text \<open>
  \<^verbatim>\<open>EnsembleOffDQNAgent.learn\<close>. The computation of the loss over the heads and the
  optimisation step are the opaque function \<open>train\<close>: it raises, or returns the new
  optimizer state, the new policy network, the loss and the mean of the expected values.
\<close>

definition EnsembleOffDQNAgent_learn ::
  "('o \<Rightarrow> 'p \<Rightarrow> 'p \<Rightarrow> real \<Rightarrow> 's transition list \<Rightarrow> error + ('o \<times> 'p \<times> real \<times> real))
    \<Rightarrow> 's transition list \<Rightarrow> ('p, 'o, 'z) ensemble_agent_scheme
    \<Rightarrow> error + ('p, 'o, 'z) ensemble_agent_scheme" where
  "EnsembleOffDQNAgent_learn train batch ag =
     (case train (optimizer ag) (policy ag) (target ag) (gamma ag) batch of
        Inl e \<Rightarrow> Inl e
      | Inr (adam, net, loss, q) \<Rightarrow>
          finish_offline loss q (ag\<lparr>policy := net, optimizer := adam\<rparr>))"

text \<open>
  \<^verbatim>\<open>torch.rand(n)\<close> returns the next \<open>n\<close> values of the random number generator,
  each in the interval from \<open>0\<close> (included) to \<open>1\<close> (excluded); \<open>draws\<close> is the
  sequence of the values the generator returns from the call on.
\<close>

definition torch_rand :: "(nat \<Rightarrow> real) \<Rightarrow> nat \<Rightarrow> real list" where
  "torch_rand draws n = map draws [0..<n]"

text \<open>
  \<^verbatim>\<open>REMOffDQNAgent.learn\<close>. Lines 379 and 380 are
  \<^verbatim>\<open>alpha = torch.rand(self.num_heads)\<close> and \<^verbatim>\<open>alpha = alpha / torch.sum(alpha)\<close>.
  A quotient by zero is no number: \<open>None\<close>. The weighted loss over the heads and the
  optimisation step are the opaque function \<open>train\<close>, which is handed the weights.
\<close>

definition torch_div :: "real \<Rightarrow> real \<Rightarrow> real option" where
  "torch_div x y = (if y = 0 then None else Some (x / y))"

definition REM_alpha :: "real list \<Rightarrow> real option list" where
  "REM_alpha raw = map (\<lambda>a. torch_div a (sum_list raw)) raw"

definition REMOffDQNAgent_learn ::
  "(real option list \<Rightarrow> 'o \<Rightarrow> 'p \<Rightarrow> 'p \<Rightarrow> real \<Rightarrow> 's transition list
      \<Rightarrow> error + ('o \<times> 'p \<times> real \<times> real))
    \<Rightarrow> (nat \<Rightarrow> real) \<Rightarrow> 's transition list \<Rightarrow> ('p, 'o, 'z) ensemble_agent_scheme
    \<Rightarrow> error + ('p, 'o, 'z) ensemble_agent_scheme" where
  "REMOffDQNAgent_learn train draws batch ag =
     (let alpha = torch_rand draws (num_heads ag);
          alpha = REM_alpha alpha
      in case train alpha (optimizer ag) (policy ag) (target ag) (gamma ag) batch of
           Inl e \<Rightarrow> Inl e
         | Inr (adam, net, loss, q) \<Rightarrow>
             finish_offline loss q (ag\<lparr>policy := net, optimizer := adam\<rparr>))"

text \<open>
  \<^verbatim>\<open>QROffDQNAgent.learn\<close>. The quantile values of the actions taken and the expected
  quantile values, two matrices with one row per transition, come from the opaque
  function \<open>quantile_values\<close>. Lines 479 to 484 follow: the elementwise Huber loss, the
  indicator \<^verbatim>\<open>(diff < 0).float()\<close>, the weighting \<^verbatim>\<open>torch.abs(self.tau - delta)\<close>,
  which broadcasts \<^verbatim>\<open>tau\<close> along the rows, and the mean.
\<close>

definition broadcast :: "(real \<Rightarrow> real \<Rightarrow> real) \<Rightarrow> real list \<Rightarrow> real list \<Rightarrow> error + real list" where
  "broadcast f x y =
     (if length x = length y then Inr (map2 f x y)
      else if length x = 1 then Inr (map (f (hd x)) y)
      else if length y = 1 then Inr (map (\<lambda>a. f a (hd y)) x)
      else Inl RuntimeError)"

definition QR_delta :: "real list list \<Rightarrow> real list list" where
  "QR_delta diff = map (map (\<lambda>d. if d < 0 then 1 else 0)) diff"

definition QR_loss_weight :: "real list \<Rightarrow> real list list \<Rightarrow> error + real list list" where
  "QR_loss_weight taus diff = rmap (broadcast (\<lambda>t d. \<bar>t - d\<bar>) taus) (QR_delta diff)"

definition QROffDQNAgent_learn ::
  "('p \<Rightarrow> 'p \<Rightarrow> real \<Rightarrow> 's transition list \<Rightarrow> error + (real list list \<times> real list list))
    \<Rightarrow> ('o \<Rightarrow> 'p \<Rightarrow> 's transition list \<Rightarrow> real list list \<Rightarrow> 'o \<times> 'p)
    \<Rightarrow> 's transition list \<Rightarrow> ('p, 'o, 'z) qr_agent_scheme
    \<Rightarrow> error + ('p, 'o, 'z) qr_agent_scheme" where
  "QROffDQNAgent_learn quantile_values optimize batch ag =
     (case quantile_values (policy ag) (target ag) (gamma ag) batch of
        Inl e \<Rightarrow> Inl e
      | Inr (q_taken, expected) \<Rightarrow>
          let huber_loss = map2 (map2 smooth_l1) q_taken expected;
              diff = map2 (map2 (\<lambda>y x. y - x)) expected q_taken
          in case QR_loss_weight (tau ag) diff of
               Inl e \<Rightarrow> Inl e
             | Inr weight \<Rightarrow>
                 let loss = mean (concat (map2 (map2 (\<lambda>w h. w * h)) weight huber_loss));
                     (adam, net) = optimize (optimizer ag) (policy ag) batch expected
                 in finish_offline loss (mean (concat expected))
                      (ag\<lparr>policy := net, optimizer := adam\<rparr>))"

subsection \<open>Runs\<close>

text \<open>
  A run is a sequence of calls of the methods of one agent; it ends at the first call
  that raises.
\<close>

fun run_calls :: "('c \<Rightarrow> 'a \<Rightarrow> error + 'a) \<Rightarrow> 'c list \<Rightarrow> 'a \<Rightarrow> error + 'a" where
  "run_calls call [] ag = Inr ag"
| "run_calls call (c # cs) ag =
     (case call c ag of Inl e \<Rightarrow> Inl e | Inr ag \<Rightarrow> run_calls call cs ag)"

text \<open>
  The calls of an agent that explores: \<^verbatim>\<open>act(state)\<close> with its two random draws,
  \<^verbatim>\<open>learn()\<close> with the batch the replay buffer returns, and \<^verbatim>\<open>add_summary_writer\<close>.
\<close>

datatype 's call = Act real nat 's | Learn "'s transition list" | AddSummaryWriter summary

fun atari_call ::
  "('s transition list \<Rightarrow> ('p, 'o, 'z) atari_agent_scheme \<Rightarrow> error + ('p, 'o, 'z) atari_agent_scheme)
    \<Rightarrow> ('p \<Rightarrow> 's \<Rightarrow> real list) \<Rightarrow> 's call \<Rightarrow> ('p, 'o, 'z) atari_agent_scheme
    \<Rightarrow> error + ('p, 'o, 'z) atari_agent_scheme" where
  "atari_call learn fwd (Act u r s) ag =
     (case atari_act fwd u r s ag of (Inl e, ag') \<Rightarrow> Inl e | (Inr a, ag') \<Rightarrow> Inr ag')"
| "atari_call learn fwd (Learn batch) ag = learn batch ag"
| "atari_call learn fwd (AddSummaryWriter w) ag = Inr (add_summary_writer w ag)"

fun lunar_call ::
  "('p \<Rightarrow> 's \<Rightarrow> real list) \<Rightarrow> ('o \<Rightarrow> 'p \<Rightarrow> 's transition list \<Rightarrow> real list \<Rightarrow> 'o \<times> 'p)
    \<Rightarrow> 's call \<Rightarrow> ('p, 'o, 'z) lunar_agent_scheme
    \<Rightarrow> error + ('p, 'o, 'z) lunar_agent_scheme" where
  "lunar_call fwd optimize (Act u r s) ag =
     (case lunar_act fwd u r s ag of (Inl e, ag') \<Rightarrow> Inl e | (Inr a, ag') \<Rightarrow> Inr ag')"
| "lunar_call fwd optimize (Learn batch) ag = lunar_DQNAgent_learn fwd optimize batch ag"
| "lunar_call fwd optimize (AddSummaryWriter w) ag = Inr (add_summary_writer w ag)"


text \<open>
  A batch is well shaped for two networks when it is not empty and, on its states, both
  networks return one value per action and the actions taken are among them.
\<close>

definition well_shaped :: "('s \<Rightarrow> real list) \<Rightarrow> ('s \<Rightarrow> real list) \<Rightarrow> 's transition list \<Rightarrow> bool" where
  "well_shaped policy_fwd target_fwd batch =
     (batch \<noteq> [] \<and>
      list_all (\<lambda>t. t_action t < length (policy_fwd (t_state t))
                  \<and> policy_fwd (t_new_state t) \<noteq> []
                  \<and> length (target_fwd (t_new_state t)) = length (policy_fwd (t_new_state t)))
        batch)"

subsection \<open>A small agent for the examples\<close>

text \<open>
  The examples run the agents on networks with one parameter, a natural number \<open>p\<close>,
  whose forward pass returns \<open>[1, 2]\<close> when \<open>p\<close> is \<open>0\<close> and \<open>[5, 0]\<close> otherwise,
  with an optimisation step that adds one to the parameter and keeps the targets it was
  handed as the optimizer state, on the batch of one non-terminal transition.
\<close>

definition ex_fwd :: "nat \<Rightarrow> nat \<Rightarrow> real list" where
  "ex_fwd p s = (if p = 0 then [1, 2] else [5, 0])"

definition ex_optimize :: "'e \<Rightarrow> nat \<Rightarrow> nat transition list \<Rightarrow> 'e \<Rightarrow> 'e \<times> nat" where
  "ex_optimize adam p batch expected = (expected, Suc p)"

definition ex_batch :: "nat transition list" where
  "ex_batch = [\<lparr>t_state = 0, t_action = 0, t_reward = 1, t_done = False, t_new_state = 1\<rparr>]"

definition ex_train ::
  "'o \<Rightarrow> nat \<Rightarrow> nat \<Rightarrow> real \<Rightarrow> nat transition list \<Rightarrow> error + ('o \<times> nat \<times> real \<times> real)" where
  "ex_train adam p t g batch = Inr (adam, Suc p, 0, 0)"

definition ex_quantile_values ::
  "nat \<Rightarrow> nat \<Rightarrow> real \<Rightarrow> nat transition list \<Rightarrow> error + (real list list \<times> real list list)" where
  "ex_quantile_values p t g batch = Inr ([[0, 0, 0, 0, 0]], [[1, -1, 1, -1, 1]])"

definition ex_cfg :: config where
  "ex_cfg = \<lparr>SUMMARY_CHECKPOINT = 1, TARGET_UPDATE_INTERVAL = 2, GAMMA = 0.5,
             LEARNING_RATE = 0.001, NUM_HEADS = 2\<rparr>"

subsection \<open>The counter of the LunarLander agent\<close>

text \<open>
  What every run of the \<^verbatim>\<open>DQNAgent\<close> of \<^verbatim>\<open>src/lunar/agents.py\<close> keeps: no method
  assigns \<^verbatim>\<open>steps_done\<close>, so the test of line 175 succeeds in every \<^verbatim>\<open>learn\<close>, and
  the target network equals the policy network between the calls.
\<close>

definition lunar_inv :: "('p, 'o, 'z) lunar_agent_scheme \<Rightarrow> bool" where
  "lunar_inv ag = (steps_done ag = 0 \<and> target ag = policy ag \<and> target_update_steps ag = 2500)"

subsection \<open>The exploration schedules\<close>



subsection \<open>The offline LSPI agent\<close>

text \<open>
  Vectors are lists and matrices are lists of rows. \<^verbatim>\<open>torch.matmul\<close> of two vectors is
  their scalar product and raises when the lengths differ; of a column and a row it is
  the outer product.
\<close>

definition dot :: "real list \<Rightarrow> real list \<Rightarrow> error + real" where
  "dot u v = (if length u = length v then Inr (sum_list (map2 (\<lambda>x y. x * y) u v))
              else Inl RuntimeError)"

definition fill_diagonal :: "nat \<Rightarrow> real \<Rightarrow> real list list" where
  "fill_diagonal k v = map (\<lambda>i. map (\<lambda>j. if i = j then v else 0) [0..<k]) [0..<k]"

definition outer :: "real list \<Rightarrow> real list \<Rightarrow> real list list" where
  "outer u v = map (\<lambda>x. map (\<lambda>y. x * y) v) u"

definition mat_add :: "real list list \<Rightarrow> real list list \<Rightarrow> real list list" where
  "mat_add A B = map2 (map2 (\<lambda>x y. x + y)) A B"

text \<open>\<open>symmetric k A\<close>: the \<open>k\<close> by \<open>k\<close> matrix \<open>A\<close> equals its transpose.\<close>

definition symmetric :: "nat \<Rightarrow> real list list \<Rightarrow> bool" where
  "symmetric k A = list_all (\<lambda>i. list_all (\<lambda>j. A ! i ! j = A ! j ! i) [0..<k]) [0..<k]"

text \<open>
  Modelled from the spec: \<^verbatim>\<open>RadialBasisFunction\<close> of
  \<^verbatim>\<open>src/lunar/utils/basis_functions.py\<close> is not among the sources. By the specification
  it is a deterministic feature map from a state and an action to a vector whose length,
  \<^verbatim>\<open>size\<close>, is the length of the weight vector. It is a parameter of the agent: the
  record of its \<^verbatim>\<open>size\<close> and of its function \<^verbatim>\<open>evaluate\<close>.
\<close>

record 's basis =
  basis_size :: nat
  evaluate :: "'s \<Rightarrow> nat \<Rightarrow> real list"

record 's lspi_agent = agent +
  num_basis :: nat
  basis_function :: "'s basis"
  weights :: "real list"
  lspi_gamma :: real

text \<open>
  \<^verbatim>\<open>OfflineLSPIAgent.__init__\<close>; \<open>rbf\<close> is the basis function line 528 constructs and
  \<open>draws\<close> gives the vector \<^verbatim>\<open>torch.rand(self.basis_function.size)\<close> returns in line 533,
  \<^verbatim>\<open>weights = (-1 - 1) * torch.rand(size) + 1\<close>.
\<close>

definition OfflineLSPIAgent_init ::
  "nat \<Rightarrow> config \<Rightarrow> 's basis \<Rightarrow> (nat \<Rightarrow> real) \<Rightarrow> 's lspi_agent" where
  "OfflineLSPIAgent_init n_actions cfg rbf draws =
     \<lparr>action_space = n_actions, summary_writer = None,
      num_basis = 3, basis_function = rbf,
      weights = map (\<lambda>u. (-1 - 1) * u + 1) (torch_rand draws (basis_size rbf)),
      lspi_gamma = GAMMA cfg\<rparr>"

text \<open>
  The feature vector of the loop of \<^verbatim>\<open>learn\<close>; a vector whose length is not
  \<^verbatim>\<open>size\<close> does not fit the matrix of the loop.
\<close>

definition features :: "'s basis \<Rightarrow> 's \<Rightarrow> nat \<Rightarrow> error + real list" where
  "features rbf s a =
     (let phi = evaluate rbf s a
      in if length phi = basis_size rbf then Inr phi else Inl RuntimeError)"

text \<open>
  \<^verbatim>\<open>OfflineLSPIAgent.act\<close>: the \<open>argmax\<close> over the actions of the scalar product of the
  weights and the features; \<^verbatim>\<open>torch.stack\<close> raises when there is no action.
\<close>

definition OfflineLSPIAgent_act :: "'s \<Rightarrow> ('s, 'z) lspi_agent_scheme \<Rightarrow> error + nat" where
  "OfflineLSPIAgent_act s ag =
     (case rmap (\<lambda>a. dot (weights ag) (evaluate (basis_function ag) s a))
             [0..<action_space ag] of
        Inl e \<Rightarrow> Inl e
      | Inr q_values \<Rightarrow> torch_argmax q_values)"

text \<open>Lines 560 to 564: the feature vector of the successor.\<close>

definition lspi_phi_sprime :: "('s, 'z) lspi_agent_scheme \<Rightarrow> 's transition \<Rightarrow> error + real list" where
  "lspi_phi_sprime ag t =
     (if \<not> t_done t
      then (case OfflineLSPIAgent_act (t_state t) ag of
              Inl e \<Rightarrow> Inl e
            | Inr best_action \<Rightarrow> features (basis_function ag) (t_new_state t) best_action)
      else Inr (replicate (basis_size (basis_function ag)) 0))"

text \<open>Lines 558 to 568: the body of the loop over the batch.\<close>

fun lspi_step ::
  "('s, 'z) lspi_agent_scheme \<Rightarrow> 's transition \<Rightarrow> real list list \<times> real list
    \<Rightarrow> error + (real list list \<times> real list)" where
  "lspi_step ag t (a_mat, b_vec) =
     (case features (basis_function ag) (t_state t) (t_action t) of
        Inl e \<Rightarrow> Inl e
      | Inr phi_sa \<Rightarrow>
          (case lspi_phi_sprime ag t of
             Inl e \<Rightarrow> Inl e
           | Inr phi_sprime \<Rightarrow>
               let phi_subtraction = map2 (\<lambda>x y. x - lspi_gamma ag * y) phi_sa phi_sprime
               in Inr (mat_add a_mat (outer phi_sa phi_subtraction),
                       map2 (\<lambda>b x. b + x * t_reward t) b_vec phi_sa)))"

fun lspi_loop ::
  "('s, 'z) lspi_agent_scheme \<Rightarrow> 's transition list \<Rightarrow> real list list \<times> real list
    \<Rightarrow> error + (real list list \<times> real list)" where
  "lspi_loop ag [] acc = Inr acc"
| "lspi_loop ag (t # ts) acc =
     (case lspi_step ag t acc of Inl e \<Rightarrow> Inl e | Inr acc' \<Rightarrow> lspi_loop ag ts acc')"

text \<open>Lines 553 to 568: the matrix and the vector handed to the solver.\<close>

definition lspi_system ::
  "('s, 'z) lspi_agent_scheme \<Rightarrow> 's transition list \<Rightarrow> error + (real list list \<times> real list)" where
  "lspi_system ag batch =
     (let k = basis_size (basis_function ag)
      in lspi_loop ag batch (fill_diagonal k 0.1, replicate k 0))"

text \<open>
  \<^verbatim>\<open>OfflineLSPIAgent.learn\<close>. \<^verbatim>\<open>torch.solve\<close> is the opaque function \<open>solve\<close>, which
  raises or returns the new weights; the difference of line 572 raises when their
  number is not the number of the weights. Line 576 calls
  \<^verbatim>\<open>self.summary_writer.add_scalar\<close> without a test of the writer.
\<close>

definition OfflineLSPIAgent_learn ::
  "(real list \<Rightarrow> real list list \<Rightarrow> error + real list) \<Rightarrow> 's transition list
    \<Rightarrow> ('s, 'z) lspi_agent_scheme \<Rightarrow> error + ('s, 'z) lspi_agent_scheme" where
  "OfflineLSPIAgent_learn solve batch ag =
     (case lspi_system ag batch of
        Inl e \<Rightarrow> Inl e
      | Inr (a_mat, b_vec) \<Rightarrow>
          (case solve b_vec a_mat of
             Inl e \<Rightarrow> Inl e
           | Inr new_weights \<Rightarrow>
               if length new_weights \<noteq> length (weights ag) then Inl RuntimeError
               else
                 let distance = sqrt (sum_list (map (\<lambda>d. d\<^sup>2)
                                  (map2 (\<lambda>x y. x - y) new_weights (weights ag))));
                     ag = ag\<lparr>weights := new_weights\<rparr>
                 in case summary_writer ag of
                      None \<Rightarrow> Inl AttributeError
                    | Some w \<Rightarrow>
                        Inr (ag\<lparr>summary_writer := Some (w @ [(''Distance'', distance)])\<rparr>)))"

text \<open>
  The system matrix in the words of the specification, for a greedy policy \<open>best\<close> on the
  states: the regularised sum over the batch of the outer products of the features of
  the state and action with their difference to \<open>gamma\<close> times the successor features,
  which are zero for a terminal transition and otherwise the features of the new state
  and of the action that is greedy for the state.
\<close>

definition spec_lspi_phi_sprime :: "'s basis \<Rightarrow> ('s \<Rightarrow> nat) \<Rightarrow> 's transition \<Rightarrow> real list" where
  "spec_lspi_phi_sprime rbf best t =
     (if t_done t then replicate (basis_size rbf) 0
      else evaluate rbf (t_new_state t) (best (t_state t)))"

definition spec_lspi_matrix ::
  "real \<Rightarrow> 's basis \<Rightarrow> ('s \<Rightarrow> nat) \<Rightarrow> 's transition list \<Rightarrow> real list list" where
  "spec_lspi_matrix g rbf best batch =
     foldl (\<lambda>A t. mat_add A
                    (outer (evaluate rbf (t_state t) (t_action t))
                       (map2 (\<lambda>x y. x - g * y) (evaluate rbf (t_state t) (t_action t))
                          (spec_lspi_phi_sprime rbf best t))))
       (fill_diagonal (basis_size rbf) 0.1) batch"

text \<open>
  The LSPI agent of the examples. Its states are real numbers and it has two actions.
  The basis has two inverse quadratic radial functions, with the centres \<open>0\<close> and \<open>1\<close>,
  replicated per action: four features, those of the other action being zero. The
  draws \<open>[0, 0.5, 0.5, 0]\<close> give the weights \<open>[1, 0, 0, 1]\<close>, and \<open>gamma\<close> is \<open>0.5\<close>.
  The solver of the examples knows one matrix \<open>M\<close> and one vector \<open>w\<close>: it answers \<open>w\<close>
  to the system of \<open>M\<close> with the right-hand side \<open>M w\<close>, and raises on any other system.
\<close>

definition ex_radial :: "real \<Rightarrow> real list" where
  "ex_radial s = [1 / (1 + (s - 0)\<^sup>2), 1 / (1 + (s - 1)\<^sup>2)]"

definition ex_basis :: "real basis" where
  "ex_basis = \<lparr>basis_size = 4,
               evaluate = (\<lambda>s a. if a = 0 then ex_radial s @ [0, 0] else [0, 0] @ ex_radial s)\<rparr>"

definition ex_lspi :: "real lspi_agent" where
  "ex_lspi = OfflineLSPIAgent_init 2 ex_cfg ex_basis (\<lambda>i. if i = 1 \<or> i = 2 then 0.5 else 0)"

definition mat_vec :: "real list list \<Rightarrow> real list \<Rightarrow> real list" where
  "mat_vec A w = map (\<lambda>row. sum_list (map2 (\<lambda>x y. x * y) row w)) A"

definition ex_solve ::
  "real list list \<Rightarrow> real list \<Rightarrow> real list \<Rightarrow> real list list \<Rightarrow> error + real list" where
  "ex_solve M w b A = (if A = M \<and> b = mat_vec M w then Inr w else Inl RuntimeError)"

text \<open>
  Two batches of one transition from the state \<open>0\<close> to the state \<open>1\<close>, the first one
  not terminal, the second one terminal, with the matrices of their systems.
\<close>

definition ex_lspi_batch :: "real transition list" where
  "ex_lspi_batch =
     [\<lparr>t_state = 0, t_action = 1, t_reward = 2.7, t_done = False, t_new_state = 1\<rparr>]"

definition ex_lspi_matrix :: "real list list" where
  "ex_lspi_matrix =
     [[0.1, 0, 0, 0], [0, 0.1, 0, 0], [- 0.25, - 0.5, 1.1, 0.5], [- 0.125, - 0.25, 0.5, 0.35]]"

definition ex_terminal_batch :: "real transition list" where
  "ex_terminal_batch =
     [\<lparr>t_state = 0, t_action = 0, t_reward = 1.35, t_done = True, t_new_state = 1\<rparr>]"

definition ex_terminal_matrix :: "real list list" where
  "ex_terminal_matrix =
     [[1.1, 0.5, 0, 0], [0.5, 0.35, 0, 0], [0, 0, 0.1, 0], [0, 0, 0, 0.1]]"


section \<open>Auxiliary facts\<close>

lemma rmap_map:
  "(\<And>x. x \<in> set xs \<Longrightarrow> f x = Inr (g x)) \<Longrightarrow> rmap f xs = Inr (map g xs)"
  by (induction xs) auto

lemma rmap_length: "rmap f xs = Inr ys \<Longrightarrow> length ys = length xs"
  by (induction xs arbitrary: ys) (auto split: sum.splits)

lemma rmap_nth: "rmap f xs = Inr ys \<Longrightarrow> i < length xs \<Longrightarrow> f (xs ! i) = Inr (ys ! i)"
proof (induction xs arbitrary: ys i)
  case Nil
  then show ?case by simp
next
  case (Cons x xs)
  then show ?case by (cases i) (auto split: sum.splits)
qed

lemma first_index_less: "v \<in> set q \<Longrightarrow> first_index v q < length q"
  by (induction q) auto

lemma nth_first_index: "v \<in> set q \<Longrightarrow> q ! first_index v q = v"
  by (induction q) auto

lemma argmax_list_less: "q \<noteq> [] \<Longrightarrow> argmax_list q < length q"
  unfolding argmax_list_def by (rule first_index_less) simp

lemma nth_argmax_list: "q \<noteq> [] \<Longrightarrow> q ! argmax_list q = Max (set q)"
  unfolding argmax_list_def by (rule nth_first_index) simp

lemma map2_map_same: "map2 f (map g xs) (map h xs) = map (\<lambda>x. f (g x) (h x)) xs"
  by (induction xs) auto

lemma max_targets:
  assumes "\<And>t. t \<in> set batch \<Longrightarrow> target_fwd (t_new_state t) \<noteq> []"
  shows "rmap torch_max (map target_fwd (map t_new_state batch))
         = Inr (map (\<lambda>t. Max (set (target_fwd (t_new_state t)))) batch)"
proof -
  have "rmap torch_max (map target_fwd (map t_new_state batch))
        = Inr (map (\<lambda>q. Max (set q)) (map target_fwd (map t_new_state batch)))"
    by (rule rmap_map) (use assms in \<open>auto simp: torch_max_def\<close>)
  then show ?thesis by (simp add: comp_def)
qed

lemma argmax_policy:
  assumes "\<And>t. t \<in> set batch \<Longrightarrow> policy_fwd (t_new_state t) \<noteq> []"
  shows "rmap torch_argmax (map policy_fwd (map t_new_state batch))
         = Inr (map (\<lambda>t. argmax_list (policy_fwd (t_new_state t))) batch)"
proof -
  have "rmap torch_argmax (map policy_fwd (map t_new_state batch))
        = Inr (map argmax_list (map policy_fwd (map t_new_state batch)))"
    by (rule rmap_map) (use assms in \<open>auto simp: torch_argmax_def\<close>)
  then show ?thesis by (simp add: comp_def)
qed

lemma gather_targets:
  assumes "\<And>t. t \<in> set batch \<Longrightarrow> policy_fwd (t_new_state t) \<noteq> []"
    and "\<And>t. t \<in> set batch \<Longrightarrow>
           length (target_fwd (t_new_state t)) = length (policy_fwd (t_new_state t))"
  shows "rmap (\<lambda>(q, a). gather q a)
           (zip (map target_fwd (map t_new_state batch))
                (map (\<lambda>t. argmax_list (policy_fwd (t_new_state t))) batch))
         = Inr (map (\<lambda>t. target_fwd (t_new_state t) ! argmax_list (policy_fwd (t_new_state t))) batch)"
proof -
  have z: "zip (map target_fwd (map t_new_state batch))
               (map (\<lambda>t. argmax_list (policy_fwd (t_new_state t))) batch)
           = map (\<lambda>t. (target_fwd (t_new_state t), argmax_list (policy_fwd (t_new_state t)))) batch"
    by (induction batch) auto
  have "rmap (\<lambda>(q, a). gather q a)
          (map (\<lambda>t. (target_fwd (t_new_state t), argmax_list (policy_fwd (t_new_state t)))) batch)
        = Inr (map (\<lambda>(q, a). q ! a)
            (map (\<lambda>t. (target_fwd (t_new_state t), argmax_list (policy_fwd (t_new_state t)))) batch))"
    by (rule rmap_map) (use assms argmax_list_less in \<open>auto simp: gather_def\<close>)
  then show ?thesis unfolding z by (simp add: comp_def)
qed

lemma double_expected:
  assumes "\<And>t. t \<in> set batch \<Longrightarrow> policy_fwd (t_new_state t) \<noteq> []"
    and "\<And>t. t \<in> set batch \<Longrightarrow>
           length (target_fwd (t_new_state t)) = length (policy_fwd (t_new_state t))"
  shows "(case rmap torch_argmax (map policy_fwd (map t_new_state batch)) of
            Inl e \<Rightarrow> Inl e
          | Inr new_action \<Rightarrow>
              (case rmap (\<lambda>(q, a). gather q a)
                      (zip (map target_fwd (map t_new_state batch)) new_action) of
                 Inl e \<Rightarrow> Inl e
               | Inr next_state_values \<Rightarrow>
                   Inr (map2 (\<lambda>v r. v * g + r)
                          (mask_zero next_state_values (map t_done batch))
                          (map t_reward batch))))
         = Inr (map (spec_double_dqn_target g policy_fwd target_fwd) batch)"
proof -
  have a: "rmap torch_argmax (map policy_fwd (map t_new_state batch))
           = Inr (map (\<lambda>t. argmax_list (policy_fwd (t_new_state t))) batch)"
    by (rule argmax_policy) (simp add: assms(1))
  have b: "rmap (\<lambda>(q, a). gather q a)
             (zip (map target_fwd (map t_new_state batch))
                  (map (\<lambda>t. argmax_list (policy_fwd (t_new_state t))) batch))
           = Inr (map (\<lambda>t. target_fwd (t_new_state t) ! argmax_list (policy_fwd (t_new_state t))) batch)"
    by (rule gather_targets) (simp_all add: assms)
  show ?thesis
    by (simp add: a b mask_zero_def map2_map_same spec_double_dqn_target_def del: map_map)
qed

lemma max_expected:
  assumes "\<And>t. t \<in> set batch \<Longrightarrow> target_fwd (t_new_state t) \<noteq> []"
  shows "(case rmap torch_max (map target_fwd (map t_new_state batch)) of
            Inl e \<Rightarrow> Inl e
          | Inr next_state_values \<Rightarrow>
              Inr (map2 (\<lambda>v r. v * g + r)
                     (mask_zero next_state_values (map t_done batch))
                     (map t_reward batch)))
         = Inr (map (spec_dqn_target g target_fwd) batch)"
proof -
  have a: "rmap torch_max (map target_fwd (map t_new_state batch))
           = Inr (map (\<lambda>t. Max (set (target_fwd (t_new_state t)))) batch)"
    by (rule max_targets) (simp add: assms)
  show ?thesis
    by (simp add: a mask_zero_def map2_map_same spec_dqn_target_def del: map_map)
qed

lemma update_target_Inr:
  assumes "update_target c ag = Inr ag'"
  shows "ag' = (if c mod target_update_steps ag = 0 then ag\<lparr>target := policy ag\<rparr> else ag)"
  using assms
  by (auto simp: update_target_def load_state_dict_def state_dict_def split: if_splits)

lemma log_metrics_Inr:
  assumes "log_metrics c l q ag = Inr ag'"
  shows "\<exists>w. ag' = ag\<lparr>summary_writer := w\<rparr>"
proof (cases "summary_writer ag")
  case None
  with assms have "ag' = ag" by (simp add: log_metrics_def)
  then have "ag' = ag\<lparr>summary_writer := summary_writer ag\<rparr>" by simp
  then show ?thesis by blast
next
  case (Some w)
  with assms have "ag' = ag\<lparr>summary_writer := Some (w @ [(''Loss'', l), (''Expected Q Values'', q)])\<rparr>
      \<or> ag' = ag\<lparr>summary_writer := summary_writer ag\<rparr>"
    by (auto simp: log_metrics_def split: if_splits)
  then show ?thesis by blast
qed

lemma finish_online_Inr:
  assumes "finish_online l q ag = Inr ag'"
  shows "target ag' = (if steps_done ag mod target_update_steps ag = 0 then policy ag else target ag)
       \<and> policy ag' = policy ag \<and> steps_done ag' = steps_done ag"
proof -
  from assms obtain ag1 where u: "update_target (steps_done ag) ag = Inr ag1"
    and g: "log_metrics (steps_done ag1) l q ag1 = Inr ag'"
    by (auto simp: finish_online_def split: sum.splits)
  from log_metrics_Inr [OF g] obtain w where "ag' = ag1\<lparr>summary_writer := w\<rparr>" ..
  with update_target_Inr [OF u] show ?thesis by (simp split: if_splits)
qed

lemma finish_offline_Inr:
  assumes "finish_offline l q ag = Inr ag'"
  shows "target ag' = (if batches_done ag mod target_update_steps ag = 0 then policy ag else target ag)
       \<and> policy ag' = policy ag \<and> batches_done ag' = batches_done ag + 1
       \<and> target_update_steps ag' = target_update_steps ag"
proof -
  from assms obtain ag1 ag2 where u: "update_target (batches_done ag) ag = Inr ag1"
    and g: "log_metrics (batches_done ag1) l q ag1 = Inr ag2"
    and e: "ag' = ag2\<lparr>batches_done := batches_done ag2 + 1\<rparr>"
    by (auto simp: finish_offline_def split: sum.splits)
  from log_metrics_Inr [OF g] obtain w where "ag2 = ag1\<lparr>summary_writer := w\<rparr>" ..
  with update_target_Inr [OF u] e show ?thesis by (simp split: if_splits)
qed



lemma lunar_DQNAgent_learn_Inr:
  assumes "lunar_DQNAgent_learn fwd optimize batch ag = Inr ag'"
  shows "target ag' = (if steps_done ag mod target_update_steps ag = 0 then policy ag' else target ag)
       \<and> steps_done ag' = steps_done ag"
proof -
  from assms obtain l q adam net where
    "finish_online l q (ag\<lparr>policy := net, optimizer := adam\<rparr>) = Inr ag'"
    by (auto simp: lunar_DQNAgent_learn_def Let_def split: if_splits sum.splits prod.splits)
  from finish_online_Inr [OF this] show ?thesis by simp
qed


lemma EnsembleOffDQNAgent_learn_Inr:
  assumes "EnsembleOffDQNAgent_learn train batch ag = Inr ag'"
  shows "target ag' = (if batches_done ag mod target_update_steps ag = 0 then policy ag' else target ag)
       \<and> batches_done ag' = batches_done ag + 1"
proof -
  from assms obtain l q adam net where
    "finish_offline l q (ag\<lparr>policy := net, optimizer := adam\<rparr>) = Inr ag'"
    by (auto simp: EnsembleOffDQNAgent_learn_def split: sum.splits prod.splits)
  from finish_offline_Inr [OF this] show ?thesis by simp
qed

lemma REMOffDQNAgent_learn_Inr:
  assumes "REMOffDQNAgent_learn train draws batch ag = Inr ag'"
  shows "target ag' = (if batches_done ag mod target_update_steps ag = 0 then policy ag' else target ag)
       \<and> batches_done ag' = batches_done ag + 1"
proof -
  from assms obtain l q adam net where
    "finish_offline l q (ag\<lparr>policy := net, optimizer := adam\<rparr>) = Inr ag'"
    by (auto simp: REMOffDQNAgent_learn_def Let_def split: sum.splits prod.splits)
  from finish_offline_Inr [OF this] show ?thesis by simp
qed

lemma QROffDQNAgent_learn_Inr:
  assumes "QROffDQNAgent_learn quantile_values optimize batch ag = Inr ag'"
  shows "target ag' = (if batches_done ag mod target_update_steps ag = 0 then policy ag' else target ag)
       \<and> batches_done ag' = batches_done ag + 1"
proof -
  from assms obtain l q adam net where
    "finish_offline l q (ag\<lparr>policy := net, optimizer := adam\<rparr>) = Inr ag'"
    by (auto simp: QROffDQNAgent_learn_def Let_def split: sum.splits prod.splits)
  from finish_offline_Inr [OF this] show ?thesis by simp
qed


lemma snd_lunar_act: "snd (lunar_act fwd u r s ag) = lunar_decay ag"
  by (simp add: lunar_act_def Let_def)

lemma lunar_decay_frame:
  "target (lunar_decay ag) = target ag \<and> policy (lunar_decay ag) = policy ag
   \<and> steps_done (lunar_decay ag) = steps_done ag"
  by (simp add: lunar_decay_def)

lemmas ex_defs = ex_fwd_def ex_optimize_def ex_batch_def ex_train_def ex_quantile_values_def ex_cfg_def
lemmas init_defs = atari_DQNAgent_init_def atari_DoubleDQNAgent_init_def lunar_DQNAgent_init_def
  OfflineDQNAgent_init_def EnsembleOffDQNAgent_init_def QROffDQNAgent_init_def QR_tau_def
lemmas learn_defs = atari_DQNAgent_learn_def atari_DoubleDQNAgent_learn_def lunar_DQNAgent_learn_def
  OfflineDQNAgent_learn_def EnsembleOffDQNAgent_learn_def REMOffDQNAgent_learn_def QROffDQNAgent_learn_def
  state_action_values_def atari_DQNAgent_expected_def atari_DoubleDQNAgent_expected_def
  lunar_DQNAgent_expected_def OfflineDQNAgent_expected_def gather_def torch_max_def torch_argmax_def
  argmax_list_def mask_zero_def finish_online_def finish_offline_def update_target_def
  log_metrics_def load_state_dict_def state_dict_def QR_loss_weight_def QR_delta_def broadcast_def






lemma REM_alpha_length: "length (REM_alpha raw) = length raw"
  by (simp add: REM_alpha_def)

lemma sum_list_divide_const: "(\<Sum>a\<leftarrow>xs. a / c) = sum_list xs / (c::real)"
  by (induction xs) (simp_all add: add_divide_distrib)

lemma well_shaped_D:
  assumes "well_shaped policy_fwd target_fwd batch"
  shows "batch \<noteq> []"
    and "\<And>t. t \<in> set batch \<Longrightarrow> t_action t < length (policy_fwd (t_state t))"
    and "\<And>t. t \<in> set batch \<Longrightarrow> policy_fwd (t_new_state t) \<noteq> []"
    and "\<And>t. t \<in> set batch \<Longrightarrow>
           length (target_fwd (t_new_state t)) = length (policy_fwd (t_new_state t))"
    and "\<And>t. t \<in> set batch \<Longrightarrow> target_fwd (t_new_state t) \<noteq> []"
  using assms by (auto simp: well_shaped_def list_all_iff)

lemma state_action_values_eq:
  assumes "\<And>t. t \<in> set batch \<Longrightarrow> t_action t < length (policy_fwd (t_state t))"
  shows "state_action_values policy_fwd batch
         = Inr (map (\<lambda>t. policy_fwd (t_state t) ! t_action t) batch)"
  unfolding state_action_values_def
  by (rule rmap_map) (simp add: gather_def assms)

lemma atari_DQNAgent_expected_eq:
  assumes "\<And>t. t \<in> set batch \<Longrightarrow> target_fwd (t_new_state t) \<noteq> []"
  shows "atari_DQNAgent_expected target_fwd batch
         = Inr (map (spec_dqn_target 0.999 target_fwd) batch)"
  unfolding atari_DQNAgent_expected_def Let_def
  by (rule max_expected) (simp add: assms)

lemma OfflineDQNAgent_expected_eq:
  assumes "\<And>t. t \<in> set batch \<Longrightarrow> target_fwd (t_new_state t) \<noteq> []"
  shows "OfflineDQNAgent_expected g target_fwd batch
         = Inr (map (spec_dqn_target g target_fwd) batch)"
  unfolding OfflineDQNAgent_expected_def Let_def
  by (rule max_expected) (simp add: assms)

lemma atari_DoubleDQNAgent_expected_eq:
  assumes "\<And>t. t \<in> set batch \<Longrightarrow> policy_fwd (t_new_state t) \<noteq> []"
    and "\<And>t. t \<in> set batch \<Longrightarrow>
           length (target_fwd (t_new_state t)) = length (policy_fwd (t_new_state t))"
  shows "atari_DoubleDQNAgent_expected policy_fwd target_fwd batch
         = Inr (map (spec_double_dqn_target 0.999 policy_fwd target_fwd) batch)"
  unfolding atari_DoubleDQNAgent_expected_def Let_def
  by (rule double_expected) (simp_all add: assms)

lemma lunar_DQNAgent_expected_eq:
  assumes "\<And>t. t \<in> set batch \<Longrightarrow> policy_fwd (t_new_state t) \<noteq> []"
    and "\<And>t. t \<in> set batch \<Longrightarrow>
           length (target_fwd (t_new_state t)) = length (policy_fwd (t_new_state t))"
  shows "lunar_DQNAgent_expected policy_fwd target_fwd batch
         = Inr (map (spec_double_dqn_target 0.99 policy_fwd target_fwd) batch)"
  unfolding lunar_DQNAgent_expected_def Let_def
  by (rule double_expected) (simp_all add: assms)

lemma spec_double_same_network:
  assumes "f (t_new_state t) \<noteq> []"
  shows "spec_double_dqn_target g f f t = spec_dqn_target g f t"
  using assms by (simp add: spec_double_dqn_target_def spec_dqn_target_def nth_argmax_list)

lemma map_spec_double_same_network:
  assumes "\<And>t. t \<in> set batch \<Longrightarrow> f (t_new_state t) \<noteq> []"
  shows "map (spec_double_dqn_target g f f) batch = map (spec_dqn_target g f) batch"
  by (rule map_cong [OF refl]) (simp add: spec_double_same_network assms)

lemmas run_defs = atari_act_def lunar_act_def lunar_decay_def atari_eps_threshold_def randint_def
  well_shaped_def spec_dqn_target_def spec_double_dqn_target_def add_summary_writer_def
  torch_rand_def REM_alpha_def torch_div_def

lemma finish_online_frame:
  assumes "finish_online l q ag = Inr ag'"
  shows "target_update_steps ag' = target_update_steps ag"
proof -
  from assms obtain ag1 where u: "update_target (steps_done ag) ag = Inr ag1"
    and g: "log_metrics (steps_done ag1) l q ag1 = Inr ag'"
    by (auto simp: finish_online_def split: sum.splits)
  from log_metrics_Inr [OF g] obtain w where "ag' = ag1\<lparr>summary_writer := w\<rparr>" ..
  with update_target_Inr [OF u] show ?thesis by (simp split: if_splits)
qed

lemma lunar_DQNAgent_learn_frame:
  assumes "lunar_DQNAgent_learn fwd optimize batch ag = Inr ag'"
  shows "target_update_steps ag' = target_update_steps ag"
proof -
  from assms obtain l q adam net where
    "finish_online l q (ag\<lparr>policy := net, optimizer := adam\<rparr>) = Inr ag'"
    by (auto simp: lunar_DQNAgent_learn_def Let_def split: if_splits sum.splits prod.splits)
  from finish_online_frame [OF this] show ?thesis by simp
qed

lemma lunar_call_inv:
  assumes "lunar_inv ag" and "lunar_call fwd optimize c ag = Inr ag'"
  shows "lunar_inv ag'"
proof (cases c)
  case (Act u r s)
  with assms(2) have "ag' = lunar_decay ag"
    by (auto simp: lunar_act_def Let_def split: if_splits sum.splits)
  with assms(1) show ?thesis by (simp add: lunar_inv_def lunar_decay_def)
next
  case (Learn batch)
  with assms(2) have l: "lunar_DQNAgent_learn fwd optimize batch ag = Inr ag'" by simp
  from lunar_DQNAgent_learn_Inr [OF l] lunar_DQNAgent_learn_frame [OF l] assms(1)
  show ?thesis by (simp add: lunar_inv_def)
next
  case (AddSummaryWriter w)
  with assms show ?thesis by (auto simp: lunar_inv_def add_summary_writer_def)
qed

lemma run_calls_Cons_Inr:
  assumes "run_calls call (c # cs) ag = Inr ag'"
  obtains ag1 where "call c ag = Inr ag1" and "run_calls call cs ag1 = Inr ag'"
  using assms by (cases "call c ag") simp_all

lemma lunar_run_inv:
  "lunar_inv ag \<Longrightarrow> run_calls (lunar_call fwd optimize) cs ag = Inr ag' \<Longrightarrow> lunar_inv ag'"
proof (induction cs arbitrary: ag)
  case Nil
  then show ?case by simp
next
  case (Cons c cs)
  from Cons.prems(2) obtain ag1 where 1: "lunar_call fwd optimize c ag = Inr ag1"
    and 2: "run_calls (lunar_call fwd optimize) cs ag1 = Inr ag'"
    by (rule run_calls_Cons_Inr)
  from lunar_call_inv [OF Cons.prems(1) 1] have "lunar_inv ag1" .
  from Cons.IH [OF this 2] show ?case .
qed

lemma lunar_init_inv: "lunar_inv (lunar_DQNAgent_init n policy_net target_net adam)"
  by (simp add: lunar_inv_def lunar_DQNAgent_init_def load_state_dict_def state_dict_def)

lemma atari_DQNAgent_learn_eq:
  assumes "well_shaped (fwd (policy ag)) (fwd (target ag)) batch"
  shows "atari_DQNAgent_learn fwd optimize batch ag =
     (let expected = map (spec_dqn_target 0.999 (fwd (target ag))) batch;
          loss = SmoothL1Loss (map (\<lambda>t. fwd (policy ag) (t_state t) ! t_action t) batch) expected;
          (adam, net) = optimize (optimizer ag) (policy ag) batch expected
      in finish_online loss (mean expected) (ag\<lparr>policy := net, optimizer := adam\<rparr>))"
proof -
  note w = well_shaped_D [OF assms]
  have q: "state_action_values (fwd (policy ag)) batch
           = Inr (map (\<lambda>t. fwd (policy ag) (t_state t) ! t_action t) batch)"
    by (rule state_action_values_eq) (rule w(2))
  have e: "atari_DQNAgent_expected (fwd (target ag)) batch
           = Inr (map (spec_dqn_target 0.999 (fwd (target ag))) batch)"
    by (rule atari_DQNAgent_expected_eq) (rule w(5))
  show ?thesis
    by (simp add: atari_DQNAgent_learn_def q e w(1) Let_def)
qed

lemma OfflineDQNAgent_learn_eq:
  assumes "well_shaped (fwd (policy ag)) (fwd (target ag)) batch"
  shows "OfflineDQNAgent_learn fwd optimize batch ag =
     (let expected = map (spec_dqn_target (gamma ag) (fwd (target ag))) batch;
          loss = SmoothL1Loss (map (\<lambda>t. fwd (policy ag) (t_state t) ! t_action t) batch) expected;
          (adam, net) = optimize (optimizer ag) (policy ag) batch expected
      in finish_offline loss (mean expected) (ag\<lparr>policy := net, optimizer := adam\<rparr>))"
proof -
  note w = well_shaped_D [OF assms]
  have q: "state_action_values (fwd (policy ag)) batch
           = Inr (map (\<lambda>t. fwd (policy ag) (t_state t) ! t_action t) batch)"
    by (rule state_action_values_eq) (rule w(2))
  have e: "OfflineDQNAgent_expected (gamma ag) (fwd (target ag)) batch
           = Inr (map (spec_dqn_target (gamma ag) (fwd (target ag))) batch)"
    by (rule OfflineDQNAgent_expected_eq) (rule w(5))
  show ?thesis
    by (simp add: OfflineDQNAgent_learn_def q e Let_def)
qed

lemma lunar_DQNAgent_learn_eq:
  assumes "well_shaped (fwd (policy ag)) (fwd (target ag)) batch" and "target ag = policy ag"
  shows "lunar_DQNAgent_learn fwd optimize batch ag =
     (let expected = map (spec_dqn_target 0.99 (fwd (target ag))) batch;
          loss = SmoothL1Loss (map (\<lambda>t. fwd (policy ag) (t_state t) ! t_action t) batch) expected;
          (adam, net) = optimize (optimizer ag) (policy ag) batch expected
      in finish_online loss (mean expected) (ag\<lparr>policy := net, optimizer := adam\<rparr>))"
proof -
  note w = well_shaped_D [OF assms(1)]
  have q: "state_action_values (fwd (policy ag)) batch
           = Inr (map (\<lambda>t. fwd (policy ag) (t_state t) ! t_action t) batch)"
    by (rule state_action_values_eq) (rule w(2))
  have "lunar_DQNAgent_expected (fwd (policy ag)) (fwd (target ag)) batch
           = Inr (map (spec_double_dqn_target 0.99 (fwd (policy ag)) (fwd (target ag))) batch)"
    by (rule lunar_DQNAgent_expected_eq) (simp_all add: w)
  moreover have "map (spec_double_dqn_target 0.99 (fwd (target ag)) (fwd (target ag))) batch
           = map (spec_dqn_target 0.99 (fwd (target ag))) batch"
    by (rule map_spec_double_same_network) (rule w(5))
  ultimately have e: "lunar_DQNAgent_expected (fwd (policy ag)) (fwd (target ag)) batch
           = Inr (map (spec_dqn_target 0.99 (fwd (target ag))) batch)"
    by (simp add: assms(2))
  show ?thesis
    by (simp add: lunar_DQNAgent_learn_def q e w(1) Let_def)
qed

















lemma torch_rand_zero: "torch_rand (\<lambda>i. 0) n = replicate n 0"
  by (simp add: torch_rand_def map_replicate_const)

lemma REM_alpha_zero: "REM_alpha (replicate n 0) = replicate n None"
  by (simp add: REM_alpha_def torch_div_def sum_list_replicate)














































lemma OfflineLSPIAgent_learn_None:
  "summary_writer ag = None \<Longrightarrow> OfflineLSPIAgent_learn solve batch ag \<noteq> Inr ag'"
  by (simp add: OfflineLSPIAgent_learn_def Let_def split: sum.splits prod.splits)

lemmas lspi_defs = ex_basis_def ex_radial_def ex_lspi_def ex_solve_def ex_cfg_def
  ex_lspi_batch_def ex_lspi_matrix_def ex_terminal_batch_def ex_terminal_matrix_def
  OfflineLSPIAgent_init_def add_summary_writer_def mat_vec_def torch_rand_def
  OfflineLSPIAgent_learn_def lspi_system_def lspi_phi_sprime_def OfflineLSPIAgent_act_def
  features_def dot_def fill_diagonal_def outer_def mat_add_def symmetric_def
  torch_argmax_def argmax_list_def spec_lspi_matrix_def spec_lspi_phi_sprime_def









section \<open>Construction\<close>

text \<open>
  C3. After construction the target network is a clone of the policy network. The
  Atari \<^verbatim>\<open>DQNAgent\<close> does not do it: the target keeps its own fresh initialisation.
  Here the two fresh networks are the parameter vectors \<open>[1]\<close> and \<open>[2]\<close>.
\<close>

theorem atari_DQNAgent_init_target_not_cloned:
  "target (atari_DQNAgent_init 4 [1::real] [2] ()) = [2] \<and>
   policy (atari_DQNAgent_init 4 [1::real] [2] ()) = [1] \<and>
   target (atari_DQNAgent_init 4 [1::real] [2] ()) \<noteq> policy (atari_DQNAgent_init 4 [1::real] [2] ())"
  by (simp add: atari_DQNAgent_init_def load_state_dict_def state_dict_def)

section \<open>Regression targets of the learn step\<close>

text \<open>
  C4. In every \<^verbatim>\<open>learn\<close> call of the Atari \<^verbatim>\<open>DoubleDQNAgent\<close> on a well shaped
  batch, the loss and the optimisation step are computed with the targets
  \<open>reward + 0.999 * Q_target(next_state, argmax_a Q_policy(next_state, a)) * (1 - done)\<close>:
  the bootstrap action is the \<open>argmax\<close> of the policy network on the next state, and its
  value is the estimate of the target network.
\<close>

theorem atari_DoubleDQNAgent_learn_targets:
  assumes "well_shaped (fwd (policy ag)) (fwd (target ag)) batch"
  shows "atari_DoubleDQNAgent_learn fwd optimize batch ag =
     (let expected = map (spec_double_dqn_target 0.999 (fwd (policy ag)) (fwd (target ag))) batch;
          loss = SmoothL1Loss (map (\<lambda>t. fwd (policy ag) (t_state t) ! t_action t) batch) expected;
          (adam, net) = optimize (optimizer ag) (policy ag) batch expected
      in finish_online loss (mean expected) (ag\<lparr>policy := net, optimizer := adam\<rparr>))"
proof -
  note w = well_shaped_D [OF assms]
  have q: "state_action_values (fwd (policy ag)) batch
           = Inr (map (\<lambda>t. fwd (policy ag) (t_state t) ! t_action t) batch)"
    by (rule state_action_values_eq) (rule w(2))
  have e: "atari_DoubleDQNAgent_expected (fwd (policy ag)) (fwd (target ag)) batch
           = Inr (map (spec_double_dqn_target 0.999 (fwd (policy ag)) (fwd (target ag))) batch)"
    by (rule atari_DoubleDQNAgent_expected_eq) (simp_all add: w)
  show ?thesis
    by (simp add: atari_DoubleDQNAgent_learn_def q e w(1) Let_def)
qed

theorem atari_DoubleDQNAgent_learn_targets_witness:
  "map_sum id (\<lambda>ag. (policy ag, target ag, optimizer ag))
     (run_calls (atari_call (atari_DoubleDQNAgent_learn ex_fwd ex_optimize) ex_fwd)
        [Act 0 0 0, Learn ex_batch, Learn ex_batch]
        (atari_DoubleDQNAgent_init 2 0 7 []))
   = Inr (2, 0, [1 + 0.999 * 1])"
proof -
  let ?ag = "projr (run_calls (atari_call (atari_DoubleDQNAgent_learn ex_fwd ex_optimize) ex_fwd)
        [Act 0 0 0, Learn ex_batch] (atari_DoubleDQNAgent_init 2 0 7 ([]::real list)))"
  have w: "well_shaped (ex_fwd (policy ?ag)) (ex_fwd (target ?ag)) ex_batch"
    by (simp add: ex_defs init_defs learn_defs run_defs)
  from atari_DoubleDQNAgent_learn_targets [OF w, of ex_optimize]
  show ?thesis
    by (simp add: ex_defs init_defs learn_defs run_defs)
qed

text \<open>
  C1. In every \<^verbatim>\<open>learn\<close> call of a plain DQN variant on a well shaped batch, the loss
  and the optimisation step are computed with the targets
  \<open>reward + gamma * max_a Q_target(next_state, a)\<close> for the transitions that are not
  terminal and \<open>reward\<close> for the terminal ones, the maximum taken over the outputs of the
  target network: for the Atari \<^verbatim>\<open>DQNAgent\<close> with \<open>gamma = 0.999\<close>, for the
  \<^verbatim>\<open>OfflineDQNAgent\<close> with \<open>gamma = self.gamma\<close>, and for the LunarLander
  \<^verbatim>\<open>DQNAgent\<close> with \<open>gamma = 0.99\<close> in every state that a run from its constructor
  reaches. There its target network equals its policy network, so that the action the
  code selects with the policy network is a maximal action of the target network.
\<close>

theorem plain_dqn_learn_targets:
  "(well_shaped (fwd (policy ag1)) (fwd (target ag1)) batch \<longrightarrow>
      atari_DQNAgent_learn fwd optimize batch ag1 =
        (let expected = map (spec_dqn_target 0.999 (fwd (target ag1))) batch;
             loss = SmoothL1Loss (map (\<lambda>t. fwd (policy ag1) (t_state t) ! t_action t) batch) expected;
             (adam, net) = optimize (optimizer ag1) (policy ag1) batch expected
         in finish_online loss (mean expected) (ag1\<lparr>policy := net, optimizer := adam\<rparr>)))
 \<and> (well_shaped (fwd (policy ag2)) (fwd (target ag2)) batch \<longrightarrow>
      OfflineDQNAgent_learn fwd optimize batch ag2 =
        (let expected = map (spec_dqn_target (gamma ag2) (fwd (target ag2))) batch;
             loss = SmoothL1Loss (map (\<lambda>t. fwd (policy ag2) (t_state t) ! t_action t) batch) expected;
             (adam, net) = optimize (optimizer ag2) (policy ag2) batch expected
         in finish_offline loss (mean expected) (ag2\<lparr>policy := net, optimizer := adam\<rparr>)))
 \<and> (run_calls (lunar_call fwd optimize) calls
        (lunar_DQNAgent_init n policy_net target_net adam0) = Inr ag3
      \<and> well_shaped (fwd (policy ag3)) (fwd (target ag3)) batch \<longrightarrow>
      lunar_DQNAgent_learn fwd optimize batch ag3 =
        (let expected = map (spec_dqn_target 0.99 (fwd (target ag3))) batch;
             loss = SmoothL1Loss (map (\<lambda>t. fwd (policy ag3) (t_state t) ! t_action t) batch) expected;
             (adam, net) = optimize (optimizer ag3) (policy ag3) batch expected
         in finish_online loss (mean expected) (ag3\<lparr>policy := net, optimizer := adam\<rparr>)))"
proof (intro conjI impI)
  assume "well_shaped (fwd (policy ag1)) (fwd (target ag1)) batch"
  then show "atari_DQNAgent_learn fwd optimize batch ag1 =
        (let expected = map (spec_dqn_target 0.999 (fwd (target ag1))) batch;
             loss = SmoothL1Loss (map (\<lambda>t. fwd (policy ag1) (t_state t) ! t_action t) batch) expected;
             (adam, net) = optimize (optimizer ag1) (policy ag1) batch expected
         in finish_online loss (mean expected) (ag1\<lparr>policy := net, optimizer := adam\<rparr>))"
    by (rule atari_DQNAgent_learn_eq)
next
  assume "well_shaped (fwd (policy ag2)) (fwd (target ag2)) batch"
  then show "OfflineDQNAgent_learn fwd optimize batch ag2 =
        (let expected = map (spec_dqn_target (gamma ag2) (fwd (target ag2))) batch;
             loss = SmoothL1Loss (map (\<lambda>t. fwd (policy ag2) (t_state t) ! t_action t) batch) expected;
             (adam, net) = optimize (optimizer ag2) (policy ag2) batch expected
         in finish_offline loss (mean expected) (ag2\<lparr>policy := net, optimizer := adam\<rparr>))"
    by (rule OfflineDQNAgent_learn_eq)
next
  assume a: "run_calls (lunar_call fwd optimize) calls
        (lunar_DQNAgent_init n policy_net target_net adam0) = Inr ag3
      \<and> well_shaped (fwd (policy ag3)) (fwd (target ag3)) batch"
  from a have r: "run_calls (lunar_call fwd optimize) calls
        (lunar_DQNAgent_init n policy_net target_net adam0) = Inr ag3" by simp
  have "lunar_inv ag3" by (rule lunar_run_inv [OF lunar_init_inv r])
  then have "target ag3 = policy ag3" by (simp add: lunar_inv_def)
  with a show "lunar_DQNAgent_learn fwd optimize batch ag3 =
        (let expected = map (spec_dqn_target 0.99 (fwd (target ag3))) batch;
             loss = SmoothL1Loss (map (\<lambda>t. fwd (policy ag3) (t_state t) ! t_action t) batch) expected;
             (adam, net) = optimize (optimizer ag3) (policy ag3) batch expected
         in finish_online loss (mean expected) (ag3\<lparr>policy := net, optimizer := adam\<rparr>))"
    by (intro lunar_DQNAgent_learn_eq) simp_all
qed

theorem plain_dqn_learn_targets_witness:
  "map_sum id (\<lambda>ag. (policy ag, target ag, optimizer ag))
     (atari_DQNAgent_learn ex_fwd ex_optimize ex_batch (atari_DQNAgent_init 2 0 7 []))
   = Inr (1, 1, [1 + 0.999 * 5])
 \<and> map_sum id (\<lambda>ag. (policy ag, target ag, optimizer ag))
     (OfflineDQNAgent_learn ex_fwd ex_optimize ex_batch (OfflineDQNAgent_init 2 ex_cfg 0 7 []))
   = Inr (1, 1, [1 + 0.5 * 2])
 \<and> map_sum id (\<lambda>ag. (policy ag, target ag, optimizer ag))
     (run_calls (lunar_call ex_fwd ex_optimize) [Act 0 0 0, Learn ex_batch, Learn ex_batch]
        (lunar_DQNAgent_init 2 0 7 []))
   = Inr (2, 2, [1 + 0.99 * 5])"
proof -
  let ?ag1 = "atari_DQNAgent_init 2 (0::nat) 7 ([]::real list)"
  let ?ag2 = "OfflineDQNAgent_init 2 ex_cfg (0::nat) 7 ([]::real list)"
  let ?ag3 = "projr (run_calls (lunar_call ex_fwd ex_optimize) [Act 0 0 0, Learn ex_batch]
        (lunar_DQNAgent_init 2 0 7 ([]::real list)))"
  have w1: "well_shaped (ex_fwd (policy ?ag1)) (ex_fwd (target ?ag1)) ex_batch"
    by (simp add: ex_defs init_defs learn_defs run_defs)
  have w2: "well_shaped (ex_fwd (policy ?ag2)) (ex_fwd (target ?ag2)) ex_batch"
    by (simp add: ex_defs init_defs learn_defs run_defs)
  have r3: "run_calls (lunar_call ex_fwd ex_optimize) [Act 0 0 0, Learn ex_batch]
        (lunar_DQNAgent_init 2 0 7 ([]::real list)) = Inr ?ag3"
    by (simp add: ex_defs init_defs learn_defs run_defs)
  have w3: "well_shaped (ex_fwd (policy ?ag3)) (ex_fwd (target ?ag3)) ex_batch"
    by (simp add: ex_defs init_defs learn_defs run_defs)
  from plain_dqn_learn_targets
    [where fwd = ex_fwd and optimize = ex_optimize and batch = ex_batch
       and ?ag1.0 = ?ag1 and ?ag2.0 = ?ag2 and ?ag3.0 = ?ag3
       and calls = "[Act 0 0 0, Learn ex_batch]" and n = 2 and policy_net = 0
       and target_net = 7 and ?adam0.0 = "[]"] w1 w2 r3 w3
  show ?thesis
    by (simp add: ex_defs init_defs learn_defs run_defs)
qed

section \<open>Quantile regression\<close>



section \<open>Random ensemble mixture\<close>

text \<open>
  C7. The mixture weights of \<^verbatim>\<open>REMOffDQNAgent.learn\<close> are said to be non-negative with
  sum one, one per head; line 378 of the source says the same in a comment,
  \<^verbatim>\<open># Get random alpha values where sum(alphas) = 1\<close>. \<^verbatim>\<open>torch.rand\<close> draws from the
  interval that contains zero. When every draw is zero, the sum of the draws is zero and
  every weight is the quotient of zero by zero: the learn step hands the loss a vector
  of \<^verbatim>\<open>num_heads\<close> entries none of which is a number, and goes on to the optimisation
  step with it.
\<close>

theorem REMOffDQNAgent_learn_zero_draws:
  "REMOffDQNAgent_learn train (\<lambda>i. 0) batch ag =
     (case train (replicate (num_heads ag) None) (optimizer ag) (policy ag) (target ag)
             (gamma ag) batch of
        Inl e \<Rightarrow> Inl e
      | Inr (adam, net, loss, q) \<Rightarrow>
          finish_offline loss q (ag\<lparr>policy := net, optimizer := adam\<rparr>))"
  by (simp add: REMOffDQNAgent_learn_def Let_def torch_rand_zero REM_alpha_zero)

section \<open>Exploration\<close>


section \<open>The least-squares agent\<close>






text \<open>
  C9. A \<^verbatim>\<open>learn\<close> call of an agent without summary writer is said to complete. No
  \<^verbatim>\<open>learn\<close> call of a newly constructed \<^verbatim>\<open>OfflineLSPIAgent\<close> returns: line 576 calls
  \<^verbatim>\<open>add_scalar\<close> on \<^verbatim>\<open>None\<close>, where the other agents test the writer first. On the
  terminal batch of the examples the call raises \<^verbatim>\<open>AttributeError\<close>; with a writer
  attached the same call returns, with the new weights and the scalar \<^verbatim>\<open>Distance\<close>.
\<close>

theorem OfflineLSPIAgent_learn_without_writer_raises:
  "OfflineLSPIAgent_learn solve batch (OfflineLSPIAgent_init n cfg rbf draws) \<noteq> Inr ag'
   \<and> summary_writer ex_lspi = None
   \<and> OfflineLSPIAgent_learn (ex_solve ex_terminal_matrix [1, 0.5, 0, 0]) ex_terminal_batch
       ex_lspi = Inl AttributeError
   \<and> map_sum id (\<lambda>ag. (weights ag, map fst (the (summary_writer ag))))
       (OfflineLSPIAgent_learn (ex_solve ex_terminal_matrix [1, 0.5, 0, 0]) ex_terminal_batch
          (add_summary_writer [] ex_lspi)) = Inr ([1, 0.5, 0, 0], [''Distance''])"
proof -
  have "OfflineLSPIAgent_learn solve batch (OfflineLSPIAgent_init n cfg rbf draws) \<noteq> Inr ag'"
    by (rule OfflineLSPIAgent_learn_None) (simp add: OfflineLSPIAgent_init_def)
  moreover have "summary_writer ex_lspi = None"
    by (simp add: ex_lspi_def OfflineLSPIAgent_init_def)
  moreover have "OfflineLSPIAgent_learn (ex_solve ex_terminal_matrix [1, 0.5, 0, 0])
       ex_terminal_batch ex_lspi = Inl AttributeError"
    by (simp add: lspi_defs upt_conv_Cons eval_nat_numeral)
  moreover have "map_sum id (\<lambda>ag. (weights ag, map fst (the (summary_writer ag))))
       (OfflineLSPIAgent_learn (ex_solve ex_terminal_matrix [1, 0.5, 0, 0]) ex_terminal_batch
          (add_summary_writer [] ex_lspi)) = Inr ([1, 0.5, 0, 0], [''Distance''])"
    by (simp add: lspi_defs upt_conv_Cons eval_nat_numeral)
  ultimately show ?thesis by simp
qed

section \<open>Synchronisation of the target network\<close>




end
